theory Spec2Isabelle
  imports Complex_Main
begin

section \<open>JavaScript values and objects\<close>

text \<open>
  Matrix values are \<open>string | number | boolean\<close>. A number is represented by the string
  that \<open>String\<close> gives for it (\<open>18\<close> by \<open>''18''\<close>, \<open>3.11\<close> by \<open>''3.11''\<close>, \<open>1e21\<close> by
  \<open>''1e+21''\<close>): two numbers other than \<open>NaN\<close> are \<open>===\<close> exactly when these strings are
  equal (\<open>+0\<close> and \<open>-0\<close> both print as \<open>0\<close> and are \<open>===\<close>). A property read yields
  \<open>undefined\<close> for a key that neither the object nor \<open>Object.prototype\<close> has, and the
  property of \<open>Object.prototype\<close> for a key only the prototype has; both are values of
  the model. Strings are lists of 8-bit code units.
\<close>

datatype scalar = Str string | Num string | Bool bool | Undefined | Inherited string

text \<open>The property names of \<open>Object.prototype\<close>.\<close>

definition protoNames :: "string list" where
  "protoNames =
     [''constructor'', ''toString'', ''toLocaleString'', ''valueOf'', ''hasOwnProperty'',
      ''propertyIsEnumerable'', ''isPrototypeOf'', ''__defineGetter__'', ''__defineSetter__'',
      ''__lookupGetter__'', ''__lookupSetter__'', ''__proto__'']"

text \<open>\<open>a === b\<close>: \<open>NaN\<close> is not equal to itself.\<close>

definition strictEq :: "scalar \<Rightarrow> scalar \<Rightarrow> bool" where
  "strictEq a b = (a = b \<and> a \<noteq> Num ''NaN'')"



text \<open>
  \<open>String(value)\<close>, also what a template literal \<open>`${value}`\<close> inserts. An inherited
  property is a native function (the one named \<open>constructor\<close> is \<open>Object\<close>), printed as
  the engine of the runtime prints native functions; \<open>__proto__\<close> reads as the prototype
  object.
\<close>

definition nativeFunctionText :: "string \<Rightarrow> string" where
  "nativeFunctionText name =
     ''function '' @ name @ ''() {'' @ [CHR 0x0A] @ ''    [native code]'' @ [CHR 0x0A] @ ''}''"

fun toString :: "scalar \<Rightarrow> string" where
  "toString (Str s) = s"
| "toString (Num n) = n"
| "toString (Bool b) = (if b then ''true'' else ''false'')"
| "toString Undefined = ''undefined''"
| "toString (Inherited k) =
     (if k = ''__proto__'' then ''[object Object]''
      else if k = ''constructor'' then nativeFunctionText ''Object''
      else nativeFunctionText k)"

text \<open>
  An object is the list of its own properties in the order \<open>Object.keys\<close>,
  \<open>Object.entries\<close> and \<open>for ... in\<close> enumerate them: keys that are array indices
  (canonical decimal numerals below \<open>2^32 - 1\<close>) first, in ascending numeric order, then
  all other string keys in insertion order. Keys are unique.
\<close>

type_synonym 'v obj = "(string \<times> 'v) list"

definition is_digit :: "char \<Rightarrow> bool" where
  "is_digit c = (c \<in> set ''0123456789'')"

definition digit_val :: "char \<Rightarrow> int" where
  "digit_val c = of_char c - 48"

definition array_index :: "string \<Rightarrow> int option" where
  "array_index k =
     (let n = foldl (\<lambda>a c. 10 * a + digit_val c) 0 k
      in if k \<noteq> [] \<and> list_all is_digit k \<and> (k = ''0'' \<or> hd k \<noteq> CHR ''0'') \<and> n < 4294967295
         then Some n else None)"

definition Object_keys :: "'v obj \<Rightarrow> string list" where
  "Object_keys ob = map fst ob"

text \<open>
  \<open>ob[k]\<close> on an object of scalars whose prototype is \<open>Object.prototype\<close>: the own
  property, else the inherited one, else \<open>undefined\<close>.
\<close>

definition getProp :: "scalar obj \<Rightarrow> string \<Rightarrow> scalar" where
  "getProp ob k =
     (case map_of ob k of
        Some v \<Rightarrow> v
      | None \<Rightarrow> if k \<in> set protoNames then Inherited k else Undefined)"

fun obj_replace :: "string \<Rightarrow> 'v \<Rightarrow> 'v obj \<Rightarrow> 'v obj" where
  "obj_replace k v [] = []"
| "obj_replace k v ((k', v') # rest) =
     (if k' = k then (k, v) # rest else (k', v') # obj_replace k v rest)"

fun obj_insert_index :: "int \<Rightarrow> string \<Rightarrow> 'v \<Rightarrow> 'v obj \<Rightarrow> 'v obj" where
  "obj_insert_index n k v [] = [(k, v)]"
| "obj_insert_index n k v ((k', v') # rest) =
     (case array_index k' of
        Some m \<Rightarrow>
          if m < n then (k', v') # obj_insert_index n k v rest else (k, v) # (k', v') # rest
      | None \<Rightarrow> (k, v) # (k', v') # rest)"

text \<open>
  Defining the own property \<open>k\<close> with value \<open>v\<close>, as an object literal, a spread and
  \<open>Object.fromEntries\<close> do: an existing property keeps its place; a new array-index key
  is placed among the index keys in numeric order; any other new key goes last.
\<close>

definition obj_set :: "string \<Rightarrow> 'v \<Rightarrow> 'v obj \<Rightarrow> 'v obj" where
  "obj_set k v ob =
     (if k \<in> set (Object_keys ob) then obj_replace k v ob
      else case array_index k of
             Some n \<Rightarrow> obj_insert_index n k v ob
           | None \<Rightarrow> ob @ [(k, v)])"

text \<open>
  The assignment \<open>ob[k] = v\<close> of a primitive value: as \<open>obj_set\<close>, except that
  \<open>__proto__\<close>, unless it is an own property already, goes to the setter inherited from
  \<open>Object.prototype\<close>, which ignores a primitive value, so that no property is created.
\<close>

definition obj_put :: "string \<Rightarrow> 'v \<Rightarrow> 'v obj \<Rightarrow> 'v obj" where
  "obj_put k v ob =
     (if k = ''__proto__'' \<and> k \<notin> set (Object_keys ob) then ob else obj_set k v ob)"

text \<open>\<open>Object.assign(target, source)\<close> assigns each own property of the source.\<close>

definition Object_assign :: "'v obj \<Rightarrow> 'v obj \<Rightarrow> 'v obj" where
  "Object_assign target source = foldl (\<lambda>t (k, v). obj_put k v t) target source"

text \<open>A spread \<open>...source\<close> in an object literal defines each own property of the source.\<close>

definition defineAll :: "'v obj \<Rightarrow> 'v obj \<Rightarrow> 'v obj" where
  "defineAll target source = foldl (\<lambda>t (k, v). obj_set k v t) target source"


text \<open>\<open>a ?? b\<close> on the values of the model (there is no \<open>null\<close> among them).\<close>

definition nullish :: "scalar \<Rightarrow> scalar \<Rightarrow> scalar" where
  "nullish a b = (if a = Undefined then b else a)"

text \<open>\<open>xs[0]\<close>: \<open>undefined\<close> on the empty array.\<close>

definition first_value :: "scalar list \<Rightarrow> scalar" where
  "first_value vs = (case vs of [] \<Rightarrow> Undefined | v # _ \<Rightarrow> v)"

text \<open>\<open>Array.prototype.join\<close> on strings.\<close>

fun join :: "string \<Rightarrow> string list \<Rightarrow> string" where
  "join sep [] = []"
| "join sep [x] = x"
| "join sep (x # y # ys) = x @ sep @ join sep (y # ys)"

section \<open>Configuration types\<close>

datatype StepStatus = Success | Failure | Skipped

record StepResult =
  sr_status :: StepStatus
  sr_outcome :: StepStatus
  sr_outputs :: "string obj"

text \<open>
  The object \<open>stepResults\<close> of a job: its own properties (results by step id) and, once a
  result has been assigned to \<open>__proto__\<close>, that result as its prototype.
\<close>

record StepResults =
  so_proto :: "StepResult option"
  so_own :: "StepResult obj"

text \<open>
  A step condition is a function of the run context (of which only the results of the
  earlier steps change during a job) or a string expression. The timeout of a step is a
  number of seconds.
\<close>

datatype StepCondition = CondFn "StepResults \<Rightarrow> bool" | CondExpr string

text \<open>\<open>RunStep\<close> carries \<open>run\<close> and the optional \<open>shell\<close>; \<open>SetupStep\<close> the runtime and version.\<close>

datatype StepAction = RunStep string "string option" | SetupStep string string

record StepDefinition =
  step_type :: StepAction
  step_id :: "string option"
  step_name :: string
  step_if :: "StepCondition option"
  step_env :: "string obj"
  step_workdir :: "string option"
  step_timeout :: "rat option"
  step_continueOnError :: bool

text \<open>\<open>exclude\<close> and \<open>include\<close> default to the empty list when absent.\<close>

record MatrixConfig =
  mx_values :: "(scalar list) obj"
  mx_exclude :: "scalar obj list"
  mx_include :: "scalar obj list"
  mx_maxParallel :: "nat option"

record JobDefinition =
  job_name :: string
  job_runner_image :: string
  job_env :: "string obj"
  job_steps :: "StepDefinition list"
  job_dependsOn :: "string list"
  job_matrix :: "MatrixConfig option"

section \<open>Matrix expansion\<close>

record MatrixCombination =
  mc_index :: nat
  mc_values :: "scalar obj"
  mc_nameSuffix :: string

record ExpandedJob =
  ej_job :: JobDefinition
  ej_matrix :: "MatrixCombination option"
  ej_instanceId :: string
  ej_displayName :: string

text \<open>
  \<open>cartesianProduct\<close> recurses over \<open>Object.keys(values)\<close>: \<open>first\<close> is the first own
  key, \<open>rest\<close> the others, and \<open>Object.fromEntries(rest.map(d => [d, values[d]]))\<close> is
  the object without its first property. In \<open>{ [first]: v, ...restCombo }\<close> the key
  \<open>first\<close> is not a key of \<open>restCombo\<close> and precedes its keys in the own-key order, so
  the literal is \<open>restCombo\<close> with the property put in front.
\<close>

fun cartesianProduct :: "(scalar list) obj \<Rightarrow> scalar obj list" where
  "cartesianProduct [] = [[]]"
| "cartesianProduct [(first, firstValues)] = map (\<lambda>v. [(first, v)]) firstValues"
| "cartesianProduct ((first, firstValues) # rest) =
     (let restProduct = cartesianProduct rest
      in concat (map (\<lambda>v. map (\<lambda>restCombo. (first, v) # restCombo) restProduct) firstValues))"

definition matchesOn :: "scalar obj \<Rightarrow> scalar obj \<Rightarrow> bool" where
  "matchesOn pattern combo =
     list_all (\<lambda>key. strictEq (getProp combo key) (getProp pattern key)) (Object_keys pattern)"

fun shouldExclude :: "scalar obj \<Rightarrow> scalar obj list \<Rightarrow> bool" where
  "shouldExclude combo [] = False"
| "shouldExclude combo (exclusion # exclusions) =
     (if matchesOn exclusion combo then True else shouldExclude combo exclusions)"

definition generateNameSuffix :: "scalar obj \<Rightarrow> string" where
  "generateNameSuffix combo =
     join '', '' (map (\<lambda>(key, val). key @ ''='' @ toString val) combo)"

text \<open>One round of the loop over \<open>include\<close>.\<close>

definition addInclusion ::
  "(scalar list) obj \<Rightarrow> scalar obj list \<Rightarrow> scalar obj \<Rightarrow> scalar obj list" where
  "addInclusion vals combinations inclusion =
     (let exists = list_ex (matchesOn inclusion) combinations
      in if \<not> exists then
           let fullCombo =
                 foldl (\<lambda>fc (dim, vs). obj_put dim (nullish (getProp inclusion dim) (first_value vs)) fc)
                   [] vals;
               fullCombo = Object_assign fullCombo inclusion
           in combinations @ [fullCombo]
         else combinations)"

text \<open>The \<open>maxParallel\<close> branch of the source has an empty body.\<close>

definition generateCombinations :: "MatrixConfig \<Rightarrow> MatrixCombination list" where
  "generateCombinations matrix =
     (let dimensions = Object_keys (mx_values matrix)
      in if length dimensions = 0 then []
         else
           let combinations = cartesianProduct (mx_values matrix);
               combinations = filter (\<lambda>combo. \<not> shouldExclude combo (mx_exclude matrix)) combinations;
               combinations = foldl (addInclusion (mx_values matrix)) combinations (mx_include matrix)
           in map (\<lambda>(index, combo).
                     \<lparr>mc_index = index, mc_values = combo, mc_nameSuffix = generateNameSuffix combo\<rparr>)
                (enumerate 0 combinations))"

definition expandMatrix :: "JobDefinition \<Rightarrow> ExpandedJob list" where
  "expandMatrix job =
     (case job_matrix job of
        None \<Rightarrow>
          [\<lparr>ej_job = job, ej_matrix = None, ej_instanceId = job_name job,
            ej_displayName = job_name job\<rparr>]
      | Some matrix \<Rightarrow>
          map (\<lambda>(index, combo).
                 \<lparr>ej_job = job, ej_matrix = Some (combo\<lparr>mc_index := index\<rparr>),
                  ej_instanceId = job_name job @ ''-'' @ mc_nameSuffix combo,
                  ej_displayName = job_name job @ '' ('' @ mc_nameSuffix combo @ '')''\<rparr>)
            (enumerate 0 (generateCombinations matrix)))"

definition expandPipelineJobs :: "JobDefinition list \<Rightarrow> ExpandedJob list" where
  "expandPipelineJobs jobs = foldl (\<lambda>expanded job. expanded @ expandMatrix job) [] jobs"

section \<open>Matrix expansion: well-formed input and the specified expansion\<close>

















section \<open>Placeholders and matrix interpolation\<close>

text \<open>
  The character classes of the regular expressions, on 8-bit code units: \<open>\s\<close> is tab,
  line feed, vertical tab, form feed, carriage return, space and no-break space; \<open>\w\<close> is
  \<open>[A-Za-z0-9_]\<close>.
\<close>

definition is_space :: "char \<Rightarrow> bool" where
  "is_space c = (c \<in> set [CHR 0x09, CHR 0x0A, CHR 0x0B, CHR 0x0C, CHR 0x0D, CHR 0x20, CHR 0xA0])"

definition is_word :: "char \<Rightarrow> bool" where
  "is_word c =
     (c \<in> set ''abcdefghijklmnopqrstuvwxyzABCDEFGHIJKLMNOPQRSTUVWXYZ0123456789_'')"

definition strip_prefix :: "string \<Rightarrow> string \<Rightarrow> string option" where
  "strip_prefix p text =
     (if take (length p) text = p then Some (drop (length p) text) else None)"

text \<open>The configuration helpers \<open>matrix(key)\<close> and \<open>output(stepId, outputName)\<close>.\<close>

definition matrix :: "string \<Rightarrow> string" where
  "matrix key = ''${{ matrix.'' @ key @ '' }}''"

definition output_helper :: "string \<Rightarrow> string \<Rightarrow> string" where
  "output_helper stepId outputName = ''${{ steps.'' @ stepId @ ''.outputs.'' @ outputName @ '' }}''"

text \<open>
  A match of \<open>/\$\{\{\s*matrix\.(\w+)\s*\}\}/\<close> at the start of a text: the captured key
  and the text after the match. Each quantifier is greedy and is followed by a character
  outside its class, so no shorter repetition can match where the longest does not.
\<close>

definition match_placeholder :: "string \<Rightarrow> (string \<times> string) option" where
  "match_placeholder text =
     (case strip_prefix ''${{'' text of
        None \<Rightarrow> None
      | Some t1 \<Rightarrow>
          (case strip_prefix ''matrix.'' (dropWhile is_space t1) of
             None \<Rightarrow> None
           | Some t2 \<Rightarrow>
               let key = takeWhile is_word t2
               in if key = [] then None
                  else (case strip_prefix ''}}'' (dropWhile is_space (dropWhile is_word t2)) of
                          None \<Rightarrow> None
                        | Some rest \<Rightarrow> Some (key, rest))))"

lemma strip_prefix_length:
  "strip_prefix p text = Some rest \<Longrightarrow> length rest + length p = length text"
  by (auto simp: strip_prefix_def split: if_splits) (metis length_take min.absorb4 min_def le_add_diff_inverse2 nat_le_linear take_all)

lemma match_placeholder_shorter:
  "match_placeholder text = Some (key, rest) \<Longrightarrow> length rest < length text"
proof -
  assume m: "match_placeholder text = Some (key, rest)"
  then obtain t1 t2 where t1: "strip_prefix ''${{'' text = Some t1"
    and t2: "strip_prefix ''matrix.'' (dropWhile is_space t1) = Some t2"
    and r: "strip_prefix ''}}'' (dropWhile is_space (dropWhile is_word t2)) = Some rest"
    by (auto simp: match_placeholder_def Let_def split: option.splits if_splits)
  have "length rest \<le> length (dropWhile is_space (dropWhile is_word t2))"
    using strip_prefix_length[OF r] by simp
  also have "\<dots> \<le> length t2"
    by (meson length_dropWhile_le order_trans)
  also have "\<dots> \<le> length (dropWhile is_space t1)"
    using strip_prefix_length[OF t2] by simp
  also have "\<dots> \<le> length t1" by (rule length_dropWhile_le)
  also have "\<dots> < length text" using strip_prefix_length[OF t1] by simp
  finally show ?thesis .
qed

text \<open>
  \<open>text.replace(regex, (_, key) => ...)\<close> with the global flag: matches are sought from
  left to right and the search resumes after each match.
\<close>

function interpolateMatrix :: "string \<Rightarrow> scalar obj \<Rightarrow> string" where
  "interpolateMatrix [] matrixValues = []"
| "interpolateMatrix (c # cs) matrixValues =
     (case match_placeholder (c # cs) of
        Some (key, rest) \<Rightarrow>
          (let val = getProp matrixValues key
           in if val \<noteq> Undefined then toString val else [])
          @ interpolateMatrix rest matrixValues
      | None \<Rightarrow> c # interpolateMatrix cs matrixValues)"
  by pat_completeness auto
termination
  by (relation "measure (\<lambda>(text, matrixValues). length text)")
     (auto dest: match_placeholder_shorter)

section \<open>Step executor\<close>

text \<open>
  What a spawned command does is outside the program; the spawn itself is taken to
  succeed. Times are milliseconds after the spawn. A process is described by what it does
  when no signal is sent: the status it exits with, the time at which it has exited and
  both pipes are closed (\<open>None\<close>: never), the text the two stream readers accumulate until
  then, and the text they have accumulated by a given time; and by what it does after a
  \<open>SIGTERM\<close> sent at a given time: the text still read from the pipes until they are
  closed and the process has exited, or \<open>None\<close> when that never happens (the process
  ignores the signal and runs on, or a child of it keeps a pipe open). The world maps the
  arguments of a spawn to the process. Log lines are not modelled.
\<close>

record SpawnArgs =
  sp_shell :: string
  sp_command :: string
  sp_cwd :: string
  sp_env :: "string obj"

record Process =
  p_exitCode :: int
  p_exitsAfter :: "rat option"
  p_output :: string
  p_outputBy :: "rat \<Rightarrow> string"
  p_afterTerm :: "rat \<Rightarrow> string option"

type_synonym World = "SpawnArgs \<Rightarrow> Process"

definition still_running :: "Process \<Rightarrow> rat \<Rightarrow> bool" where
  "still_running proc ms = (case p_exitsAfter proc of None \<Rightarrow> True | Some d \<Rightarrow> ms < d)"

text \<open>\<open>proc.kill()\<close> without an argument sends \<open>SIGTERM\<close>; no other signal is sent.\<close>

datatype Signal = SIGTERM

text \<open>
  A call of \<open>runCommand\<close>: the signals it sends to the process, with the time of each, and
  the exit code and output it returns (\<open>None\<close>: the call never returns).
\<close>

record CommandRun =
  cr_signals :: "(rat \<times> Signal) list"
  cr_result :: "(int \<times> string) option"

text \<open>The object literal \<open>{ ...a, ...b }\<close>.\<close>

definition spread2 :: "'v obj \<Rightarrow> 'v obj \<Rightarrow> 'v obj" where
  "spread2 a b = defineAll (defineAll [] a) b"

definition TIMEOUT_TEXT :: string where
  "TIMEOUT_TEXT = CHR 0x0A # ''[TIMEOUT] Step exceeded timeout limit''"

record CommandOptions =
  co_cwd :: string
  co_env :: "string obj"
  co_shell :: string
  co_timeout :: "rat option"

text \<open>
  The timer is set only when \<open>options.timeout\<close> is truthy, that is present and not \<open>0\<close>;
  its delay is \<open>options.timeout * 1000\<close> (what the runtime does with a delay outside the
  range of its timers, below 1 or above \<open>2^31 - 1\<close>, is not modelled). When it fires,
  \<open>SIGTERM\<close> is sent to the process and the timeout text is added to the output at that
  moment (what the readers still receive follows it). With or without a timer the call
  returns only when both pipes are closed and the process has exited; it then reports the
  exit code 124 if the timer has fired.
\<close>

definition spawnArgs :: "string obj \<Rightarrow> string \<Rightarrow> CommandOptions \<Rightarrow> SpawnArgs" where
  "spawnArgs bunEnv command options =
     \<lparr>sp_shell = co_shell options, sp_command = command, sp_cwd = co_cwd options,
      sp_env = spread2 bunEnv (co_env options)\<rparr>"

definition runCommand ::
  "World \<Rightarrow> string obj \<Rightarrow> string \<Rightarrow> CommandOptions \<Rightarrow> CommandRun" where
  "runCommand world bunEnv command options =
     (let proc = world (spawnArgs bunEnv command options);
          timer = (case co_timeout options of
                     None \<Rightarrow> None
                   | Some seconds \<Rightarrow> if seconds \<noteq> 0 then Some (seconds * 1000) else None)
      in case timer of
           Some ms \<Rightarrow>
             if still_running proc ms
             then \<lparr>cr_signals = [(ms, SIGTERM)],
                   cr_result =
                     (case p_afterTerm proc ms of
                        None \<Rightarrow> None
                      | Some rest \<Rightarrow> Some (124, p_outputBy proc ms @ TIMEOUT_TEXT @ rest))\<rparr>
             else \<lparr>cr_signals = [], cr_result = Some (p_exitCode proc, p_output proc)\<rparr>
         | None \<Rightarrow>
             \<lparr>cr_signals = [],
              cr_result =
                (case p_exitsAfter proc of
                   None \<Rightarrow> None
                 | Some d \<Rightarrow> Some (p_exitCode proc, p_output proc))\<rparr>)"

text \<open>
  A match of \<open>/::set-output name=([^:]+)::(.+)/\<close> at the start of a text: name, value and
  the text after the match. The dot matches any code unit but a line terminator.
\<close>

definition is_line_terminator :: "char \<Rightarrow> bool" where
  "is_line_terminator c = (c = CHR 0x0A \<or> c = CHR 0x0D)"

definition match_set_output :: "string \<Rightarrow> (string \<times> string \<times> string) option" where
  "match_set_output text =
     (case strip_prefix ''::set-output name='' text of
        None \<Rightarrow> None
      | Some t1 \<Rightarrow>
          let name = takeWhile (\<lambda>c. c \<noteq> CHR '':'') t1
          in if name = [] then None
             else (case strip_prefix ''::'' (dropWhile (\<lambda>c. c \<noteq> CHR '':'') t1) of
                     None \<Rightarrow> None
                   | Some t2 \<Rightarrow>
                       let val = takeWhile (\<lambda>c. \<not> is_line_terminator c) t2
                       in if val = [] then None
                          else Some (name, val, dropWhile (\<lambda>c. \<not> is_line_terminator c) t2)))"

lemma match_set_output_shorter:
  "match_set_output text = Some (name, val, rest) \<Longrightarrow> length rest < length text"
proof -
  assume m: "match_set_output text = Some (name, val, rest)"
  then obtain t1 t2 where t1: "strip_prefix ''::set-output name='' text = Some t1"
    and t2: "strip_prefix ''::'' (dropWhile (\<lambda>c. c \<noteq> CHR '':'') t1) = Some t2"
    and r: "rest = dropWhile (\<lambda>c. \<not> is_line_terminator c) t2"
    by (auto simp: match_set_output_def Let_def split: option.splits if_splits)
  have "length rest \<le> length t2"
    unfolding r by (rule length_dropWhile_le)
  also have "\<dots> \<le> length (dropWhile (\<lambda>c. c \<noteq> CHR '':'') t1)"
    using strip_prefix_length[OF t2] by simp
  also have "\<dots> \<le> length t1" by (rule length_dropWhile_le)
  also have "\<dots> < length text" using strip_prefix_length[OF t1] by simp
  finally show ?thesis .
qed

text \<open>The loop \<open>while ((match = outputRegex.exec(output)) !== null)\<close>: all matches, left to right.\<close>

function scan_set_output :: "string \<Rightarrow> (string \<times> string) list" where
  "scan_set_output [] = []"
| "scan_set_output (c # cs) =
     (case match_set_output (c # cs) of
        Some (name, val, rest) \<Rightarrow> (name, val) # scan_set_output rest
      | None \<Rightarrow> scan_set_output cs)"
  by pat_completeness auto
termination
  by (relation "measure length") (auto dest: match_set_output_shorter)

text \<open>\<open>outputs[name] = value\<close> for each match (name and value are never empty).\<close>

definition parseOutputs :: "string \<Rightarrow> string obj" where
  "parseOutputs text =
     foldl (\<lambda>outputs (name, val). obj_put name val outputs) [] (scan_set_output text)"

text \<open>
  \<open>runStep\<close>. The step environment is \<open>{ ...options.env, ...step.env }\<close>, the working
  directory is the step's when absolute and relative to the job's otherwise, the shell
  defaults to \<open>bash\<close>. The results of the earlier steps are passed in but not read.
\<close>

definition commandOptions ::
  "StepDefinition \<Rightarrow> string \<Rightarrow> string obj \<Rightarrow> string option \<Rightarrow> CommandOptions" where
  "commandOptions step cwd jobEnv shellOpt =
     (let env = spread2 jobEnv (step_env step);
          workdir = (case step_workdir step of
                       None \<Rightarrow> cwd
                     | Some w \<Rightarrow>
                         if w = [] then cwd
                         else if take 1 w = ''/'' then w else cwd @ ''/'' @ w);
          shell = (case shellOpt of None \<Rightarrow> ''bash'' | Some s \<Rightarrow> s)
      in \<lparr>co_cwd = workdir, co_env = env, co_shell = shell, co_timeout = step_timeout step\<rparr>)"

definition runStep ::
  "World \<Rightarrow> string obj \<Rightarrow> StepDefinition \<Rightarrow> string \<Rightarrow> string obj \<Rightarrow> StepResults
     \<Rightarrow> StepResult option" where
  "runStep world bunEnv step cwd jobEnv stepResults =
     (case step_type step of
        RunStep run shellOpt \<Rightarrow>
          (case cr_result (runCommand world bunEnv run (commandOptions step cwd jobEnv shellOpt)) of
             None \<Rightarrow> None
           | Some (exitCode, out) \<Rightarrow>
               let success = (exitCode = 0);
                   status = (if success then Success else Failure);
                   outputs = parseOutputs out
               in Some \<lparr>sr_status = (if step_continueOnError step \<and> \<not> success
                                        then Success else status),
                        sr_outcome = status, sr_outputs = outputs\<rparr>)
      | SetupStep runtime version \<Rightarrow>
          Some \<lparr>sr_status = Success, sr_outcome = Success, sr_outputs = []\<rparr>)"

text \<open>
  \<open>runJob\<close>. The state of the loop over the steps: the object \<open>stepResults\<close>, the timings
  (name and status; durations are wall-clock time and left out), and \<open>jobFailed\<close>.
\<close>

record LoopState =
  ls_stepResults :: StepResults
  ls_stepTimings :: "(string \<times> StepStatus) list"
  ls_jobFailed :: bool

definition skippedResult :: StepResult where
  "skippedResult = \<lparr>sr_status = Skipped, sr_outcome = Skipped, sr_outputs = []\<rparr>"

text \<open>
  \<open>if (step.id) stepResults[step.id] = result\<close>: an empty id is falsy. The object has no
  own property \<open>__proto__\<close>, so that assigning a result to this key makes the result the
  prototype of \<open>stepResults\<close> and creates no property.
\<close>

definition recordResult :: "StepDefinition \<Rightarrow> StepResult \<Rightarrow> StepResults \<Rightarrow> StepResults" where
  "recordResult step result stepResults =
     (case step_id step of
        None \<Rightarrow> stepResults
      | Some i \<Rightarrow>
          if i = [] then stepResults
          else if i = ''__proto__'' \<and> i \<notin> set (Object_keys (so_own stepResults))
          then stepResults\<lparr>so_proto := Some result\<rparr>
          else stepResults\<lparr>so_own := obj_set i result (so_own stepResults)\<rparr>)"

text \<open>
  Only a function condition is evaluated (on the context with the step results so far;
  it is taken to return, and its result is read as a boolean); a string condition never
  skips a step.
\<close>

definition conditionSkips :: "StepDefinition \<Rightarrow> StepResults \<Rightarrow> bool" where
  "conditionSkips step stepResults =
     (case step_if step of
        Some (CondFn shouldRun) \<Rightarrow> \<not> shouldRun stepResults
      | _ \<Rightarrow> False)"

definition failureSkips :: "StepDefinition \<Rightarrow> LoopState \<Rightarrow> bool" where
  "failureSkips step st = (ls_jobFailed st \<and> \<not> step_continueOnError step)"

text \<open>One round of the loop over the steps.\<close>

definition loopBody ::
  "World \<Rightarrow> string obj \<Rightarrow> string \<Rightarrow> string obj \<Rightarrow> StepDefinition \<Rightarrow> LoopState
     \<Rightarrow> LoopState option" where
  "loopBody world bunEnv cwd env step st =
     (if conditionSkips step (ls_stepResults st) then
        Some (st\<lparr>ls_stepResults := recordResult step skippedResult (ls_stepResults st)\<rparr>)
      else if failureSkips step st then
        Some (st\<lparr>ls_stepResults := recordResult step skippedResult (ls_stepResults st),
                 ls_stepTimings := ls_stepTimings st @ [(step_name step, Skipped)]\<rparr>)
      else
        (case runStep world bunEnv step cwd env (ls_stepResults st) of
           None \<Rightarrow> None
         | Some result \<Rightarrow>
             Some \<lparr>ls_stepResults = recordResult step result (ls_stepResults st),
                   ls_stepTimings = ls_stepTimings st @ [(step_name step, sr_status result)],
                   ls_jobFailed =
                     (if sr_outcome result = Failure \<and> \<not> step_continueOnError step then True
                      else ls_jobFailed st)\<rparr>))"

fun runSteps ::
  "World \<Rightarrow> string obj \<Rightarrow> string \<Rightarrow> string obj \<Rightarrow> StepDefinition list \<Rightarrow> LoopState
     \<Rightarrow> LoopState option" where
  "runSteps world bunEnv cwd env [] st = Some st"
| "runSteps world bunEnv cwd env (step # steps) st =
     (case loopBody world bunEnv cwd env step st of
        None \<Rightarrow> None
      | Some st' \<Rightarrow> runSteps world bunEnv cwd env steps st')"

datatype RunStatus = RunSuccess | RunFailure | RunCancelled

text \<open>The result of a job; \<open>jr_steps\<close> lists the own properties of its \<open>steps\<close>.\<close>

record JobRunResult =
  jr_job :: string
  jr_status :: RunStatus
  jr_steps :: "StepResult obj"
  jr_outputs :: "string obj"
  jr_stepTimings :: "(string \<times> StepStatus) list"

definition initialLoopState :: LoopState where
  "initialLoopState =
     \<lparr>ls_stepResults = \<lparr>so_proto = None, so_own = []\<rparr>, ls_stepTimings = [],
      ls_jobFailed = False\<rparr>"

definition jobEnvironment :: "string obj \<Rightarrow> JobDefinition \<Rightarrow> string obj" where
  "jobEnvironment optionsEnv job =
     obj_set ''ZEPHYR'' ''true'' (obj_set ''CI'' ''true'' (spread2 optionsEnv (job_env job)))"

definition runJob ::
  "World \<Rightarrow> string obj \<Rightarrow> JobDefinition \<Rightarrow> string \<Rightarrow> string obj \<Rightarrow> JobRunResult option" where
  "runJob world bunEnv job cwd optionsEnv =
     (let env = jobEnvironment optionsEnv job
      in case runSteps world bunEnv cwd env (job_steps job) initialLoopState of
           None \<Rightarrow> None
         | Some st \<Rightarrow>
             Some \<lparr>jr_job = job_name job,
                   jr_status = (if ls_jobFailed st then RunFailure else RunSuccess),
                   jr_steps = so_own (ls_stepResults st), jr_outputs = [],
                   jr_stepTimings = ls_stepTimings st\<rparr>)"


section \<open>Step executor: predicates and scenarios\<close>

text \<open>
  A step fails the job in a loop state when it is executed there (neither gate skips
  it), its outcome is \<open>failure\<close> and it is not marked \<open>continueOnError\<close>. Some step of a
  list fails the job when one does so in the state the loop has reached at its turn.
\<close>

definition stepFails ::
  "World \<Rightarrow> string obj \<Rightarrow> string \<Rightarrow> string obj \<Rightarrow> StepDefinition \<Rightarrow> LoopState \<Rightarrow> bool" where
  "stepFails world bunEnv cwd env step st =
     (\<not> conditionSkips step (ls_stepResults st) \<and> \<not> failureSkips step st \<and>
      (\<exists>r. runStep world bunEnv step cwd env (ls_stepResults st) = Some r \<and> sr_outcome r = Failure) \<and>
      \<not> step_continueOnError step)"

definition someStepFails ::
  "World \<Rightarrow> string obj \<Rightarrow> string \<Rightarrow> string obj \<Rightarrow> StepDefinition list \<Rightarrow> LoopState \<Rightarrow> bool" where
  "someStepFails world bunEnv cwd env steps st0 =
     (\<exists>pre step post st. steps = pre @ step # post \<and>
        runSteps world bunEnv cwd env pre st0 = Some st \<and>
        stepFails world bunEnv cwd env step st)"

text \<open>
  Every process of a world ends: by itself when no signal is sent, and after a \<open>SIGTERM\<close>
  whenever one is sent.
\<close>

definition alwaysEnds :: "World \<Rightarrow> bool" where
  "alwaysEnds world =
     (\<forall>args. p_exitsAfter (world args) \<noteq> None \<and> (\<forall>ms. p_afterTerm (world args) ms \<noteq> None))"

text \<open>A run step with default fields.\<close>

definition runStepOf :: "string \<Rightarrow> string \<Rightarrow> StepDefinition" where
  "runStepOf name command =
     \<lparr>step_type = RunStep command None, step_id = None, step_name = name, step_if = None,
      step_env = [], step_workdir = None, step_timeout = None, step_continueOnError = False\<rparr>"

definition jobOf :: "string \<Rightarrow> StepDefinition list \<Rightarrow> JobDefinition" where
  "jobOf name steps =
     \<lparr>job_name = name, job_runner_image = ''ubuntu-22.04'', job_env = [], job_steps = steps,
      job_dependsOn = [], job_matrix = None\<rparr>"

text \<open>
  A world of quick silent commands: \<open>false\<close> exits with 1, \<open>sleep 5\<close> exits with 0 after
  five seconds, everything else exits with 0 after a millisecond; every process ends at
  once on \<open>SIGTERM\<close>.
\<close>

definition shellWorld :: World where
  "shellWorld args =
     \<lparr>p_exitCode = (if sp_command args = ''false'' then 1 else 0),
      p_exitsAfter = (if sp_command args = ''sleep 5'' then Some 5000 else Some 1),
      p_output = [], p_outputBy = (\<lambda>ms. []), p_afterTerm = (\<lambda>ms. Some [])\<rparr>"


definition failingJob :: JobDefinition where
  "failingJob =
     jobOf ''build''
       [(runStepOf ''lint'' ''false'')\<lparr>step_continueOnError := True\<rparr>,
        runStepOf ''compile'' ''false'',
        runStepOf ''package'' ''true'']"


text \<open>
  A world of \<open>echo\<close> commands: the output is the command's argument with \<open>$VER\<close> replaced
  by the value of \<open>VER\<close> in the environment the process is given.
\<close>

definition echoWorld :: World where
  "echoWorld args =
     (let ver = (case map_of (sp_env args) ''VER'' of None \<Rightarrow> [] | Some v \<Rightarrow> v);
          text = (if sp_command args = ''echo ::set-output name=seen::$VER''
                  then ''::set-output name=seen::'' @ ver
                  else drop 5 (sp_command args)) @ [CHR 0x0A]
      in \<lparr>p_exitCode = 0, p_exitsAfter = Some 1, p_output = text,
          p_outputBy = (\<lambda>ms. text), p_afterTerm = (\<lambda>ms. Some [])\<rparr>)"

definition outputJob :: JobDefinition where
  "outputJob =
     jobOf ''release''
       [(runStepOf ''Build'' ''echo ::set-output name=version::1.2.3'')\<lparr>step_id := Some ''build''\<rparr>,
        (runStepOf ''Use'' ''echo ::set-output name=seen::$VER'')
          \<lparr>step_id := Some ''use'', step_env := [(''VER'', output_helper ''build'' ''version'')]\<rparr>]"

section \<open>Warm VM pool\<close>





datatype PoolState = Starting | Running | Stopping | Stopped

























section \<open>Configuration loading\<close>

record PipelineDefinition =
  pl_name :: string
  pl_triggers :: "string list"
  pl_jobs :: "JobDefinition list"
  pl_env :: "string obj"

record ConfigContext =
  ctx_branch :: string
  ctx_sha :: string
  ctx_eventType :: string
  ctx_isPullRequest :: bool

text \<open>\<open>pipelines\<close> is an array or a function of the context.\<close>

datatype Pipelines =
  Static "PipelineDefinition list"
| Dynamic "ConfigContext \<Rightarrow> PipelineDefinition list"

record ProjectConfig =
  proj_name :: string
  proj_env :: "string obj"

record ZephyrConfig =
  cfg_project :: "ProjectConfig option"
  cfg_pipelines :: "Pipelines option"

text \<open>A thrown \<open>Error\<close> with its message.\<close>

datatype Err = Error string

text \<open>
  The file system: a path has no file, or a module without a default export, or a module
  whose default export is the configuration.
\<close>

datatype ConfigModule = NoDefault | Default ZephyrConfig

type_synonym FileSystem = "string \<Rightarrow> ConfigModule option"

definition checkDependsOn :: "PipelineDefinition \<Rightarrow> string list \<Rightarrow> JobDefinition \<Rightarrow> Err option" where
  "checkDependsOn pipeline jobNames job =
     (case filter (\<lambda>dep. dep \<notin> set jobNames \<and> \<not> list_ex (\<lambda>j. job_name j = dep) (pl_jobs pipeline))
             (job_dependsOn job) of
        [] \<Rightarrow> None
      | dep # _ \<Rightarrow>
          Some (Error (''Job '' @ [CHR 0x27] @ job_name job @ [CHR 0x27] @ '' depends on unknown job ''
                       @ [CHR 0x27] @ dep @ [CHR 0x27])))"

text \<open>The loop of \<open>validatePipeline\<close> over the jobs, with the set of the names seen so far.\<close>

fun validateJobs :: "PipelineDefinition \<Rightarrow> string list \<Rightarrow> JobDefinition list \<Rightarrow> Err option" where
  "validateJobs pipeline jobNames [] = None"
| "validateJobs pipeline jobNames (job # jobs) =
     (if job_name job = [] then
        Some (Error (''Job in pipeline '' @ [CHR 0x27] @ pl_name pipeline @ [CHR 0x27]
                     @ '' must have a '' @ [CHR 0x27] @ ''name'' @ [CHR 0x27] @ '' property''))
      else if job_name job \<in> set jobNames then
        Some (Error (''Duplicate job name '' @ [CHR 0x27] @ job_name job @ [CHR 0x27]
                     @ '' in pipeline '' @ [CHR 0x27] @ pl_name pipeline @ [CHR 0x27]))
      else if job_runner_image job = [] then
        Some (Error (''Job '' @ [CHR 0x27] @ job_name job @ [CHR 0x27] @ '' runner must have an ''
                     @ [CHR 0x27] @ ''image'' @ [CHR 0x27] @ '' property''))
      else if job_steps job = [] then
        Some (Error (''Job '' @ [CHR 0x27] @ job_name job @ [CHR 0x27]
                     @ '' must have at least one step''))
      else
        (case checkDependsOn pipeline (job_name job # jobNames) job of
           Some e \<Rightarrow> Some e
         | None \<Rightarrow> validateJobs pipeline (job_name job # jobNames) jobs))"

definition validatePipeline :: "PipelineDefinition \<Rightarrow> Err option" where
  "validatePipeline pipeline =
     (if pl_name pipeline = [] then
        Some (Error (''Pipeline must have a '' @ [CHR 0x27] @ ''name'' @ [CHR 0x27] @ '' property''))
      else if pl_triggers pipeline = [] then
        Some (Error (''Pipeline '' @ [CHR 0x27] @ pl_name pipeline @ [CHR 0x27]
                     @ '' must have at least one trigger''))
      else if pl_jobs pipeline = [] then
        Some (Error (''Pipeline '' @ [CHR 0x27] @ pl_name pipeline @ [CHR 0x27]
                     @ '' must have at least one job''))
      else validateJobs pipeline [] (pl_jobs pipeline))"

fun validatePipelines :: "PipelineDefinition list \<Rightarrow> Err option" where
  "validatePipelines [] = None"
| "validatePipelines (pipeline # pipelines) =
     (case validatePipeline pipeline of
        Some e \<Rightarrow> Some e
      | None \<Rightarrow> validatePipelines pipelines)"

definition validateConfig :: "ZephyrConfig \<Rightarrow> Err option" where
  "validateConfig config =
     (case cfg_project config of
        None \<Rightarrow> Some (Error (''Config must have a '' @ [CHR 0x27] @ ''project'' @ [CHR 0x27] @ '' property''))
      | Some project \<Rightarrow>
          if proj_name project = [] then
            Some (Error (''Project must have a '' @ [CHR 0x27] @ ''name'' @ [CHR 0x27] @ '' property''))
          else
            (case cfg_pipelines config of
               None \<Rightarrow> Some (Error (''Config must have a '' @ [CHR 0x27] @ ''pipelines''
                                     @ [CHR 0x27] @ '' property''))
             | Some (Static pipelines) \<Rightarrow> validatePipelines pipelines
             | Some (Dynamic f) \<Rightarrow> None))"

text \<open>\<open>loadConfig\<close>; the path is taken as absolute.\<close>

definition loadConfig :: "FileSystem \<Rightarrow> string \<Rightarrow> Err + ZephyrConfig" where
  "loadConfig fs configPath =
     (case fs configPath of
        None \<Rightarrow> Inl (Error (''Config file not found: '' @ configPath))
      | Some NoDefault \<Rightarrow> Inl (Error (''Config file must have a default export: '' @ configPath))
      | Some (Default config) \<Rightarrow>
          (case validateConfig config of
             Some e \<Rightarrow> Inl e
           | None \<Rightarrow> Inr config))"

text \<open>\<open>resolvePipelines\<close>; a configuration that passed \<open>validateConfig\<close> has pipelines.\<close>

definition resolvePipelines :: "ZephyrConfig \<Rightarrow> ConfigContext \<Rightarrow> PipelineDefinition list" where
  "resolvePipelines config context =
     (case cfg_pipelines config of
        Some (Dynamic f) \<Rightarrow> f context
      | Some (Static pipelines) \<Rightarrow> pipelines
      | None \<Rightarrow> [])"

section \<open>Store\<close>

datatype JobStatus = JPending | JReady | JRunning | JSuccess | JFailure | JSkipped | JCancelled

datatype PipelineStatus = PPending | PRunning | PSuccess | PFailure | PCancelled

record PipelineRunRecord =
  pr_id :: string
  pr_project_id :: string
  pr_pipeline_name :: string
  pr_trigger_type :: string
  pr_branch :: string
  pr_commit_sha :: string
  pr_status :: PipelineStatus

record JobRecord =
  jb_id :: string
  jb_pipeline_run_id :: string
  jb_name :: string
  jb_runner_image :: string
  jb_status :: JobStatus

record ProjectRecord =
  pj_id :: string
  pj_name :: string
  pj_config_path :: "string option"

record Database =
  db_projects :: "ProjectRecord list"
  db_pipeline_runs :: "PipelineRunRecord list"
  db_jobs :: "JobRecord list"

text \<open>
  Modelled from the spec: the class \<open>ZephyrDatabase\<close> of the storage package is not among
  the sources. The store keeps rows in insertion order; a created pipeline run and a
  created job start with status \<open>pending\<close>; \<open>getPendingJobs(limit)\<close> returns up to
  \<open>limit\<close> jobs whose status is \<open>pending\<close>; \<open>updateJobStatus\<close> sets the status of the
  job with the given id. Timestamps are left out.
\<close>

definition createPipelineRun ::
  "Database \<Rightarrow> string \<Rightarrow> string \<Rightarrow> string \<Rightarrow> string \<Rightarrow> string \<Rightarrow> string
     \<Rightarrow> PipelineRunRecord \<times> Database" where
  "createPipelineRun db runId projectId pipelineName triggerType branch commitSha =
     (let row = \<lparr>pr_id = runId, pr_project_id = projectId, pr_pipeline_name = pipelineName,
                  pr_trigger_type = triggerType, pr_branch = branch, pr_commit_sha = commitSha,
                  pr_status = PPending\<rparr>
      in (row, db\<lparr>db_pipeline_runs := db_pipeline_runs db @ [row]\<rparr>))"

definition createJob :: "Database \<Rightarrow> string \<Rightarrow> string \<Rightarrow> string \<Rightarrow> string \<Rightarrow> Database" where
  "createJob db jobId pipelineRunId name runnerImage =
     db\<lparr>db_jobs := db_jobs db @
          [\<lparr>jb_id = jobId, jb_pipeline_run_id = pipelineRunId, jb_name = name,
            jb_runner_image = runnerImage, jb_status = JPending\<rparr>]\<rparr>"

definition getPipelineRun :: "Database \<Rightarrow> string \<Rightarrow> PipelineRunRecord option" where
  "getPipelineRun db runId = find (\<lambda>r. pr_id r = runId) (db_pipeline_runs db)"

definition getProject :: "Database \<Rightarrow> string \<Rightarrow> ProjectRecord option" where
  "getProject db projectId = find (\<lambda>p. pj_id p = projectId) (db_projects db)"

definition getJobsForPipelineRun :: "Database \<Rightarrow> string \<Rightarrow> JobRecord list" where
  "getJobsForPipelineRun db runId = filter (\<lambda>j. jb_pipeline_run_id j = runId) (db_jobs db)"

definition getPendingJobs :: "Database \<Rightarrow> nat \<Rightarrow> JobRecord list" where
  "getPendingJobs db limit = take limit (filter (\<lambda>j. jb_status j = JPending) (db_jobs db))"

definition updateJobStatus :: "Database \<Rightarrow> string \<Rightarrow> JobStatus \<Rightarrow> Database" where
  "updateJobStatus db jobId status =
     db\<lparr>db_jobs := map (\<lambda>j. if jb_id j = jobId then j\<lparr>jb_status := status\<rparr> else j) (db_jobs db)\<rparr>"

section \<open>Job scheduler\<close>

record QueuedPipelineRun =
  qr_id :: string
  qr_projectId :: string
  qr_pipelineName :: string
  qr_configPath :: string
  qr_context :: ConfigContext

text \<open>
  \<open>queuePipelineRun\<close>: the run row is created first; loading the configuration or a
  missing pipeline throws after that; then one job row is created per job definition of
  the pipeline.
\<close>

definition queuePipelineRun ::
  "FileSystem \<Rightarrow> Database \<Rightarrow> QueuedPipelineRun \<Rightarrow> (Err + string) \<times> Database" where
  "queuePipelineRun fs db run =
     (case createPipelineRun db (qr_id run) (qr_projectId run) (qr_pipelineName run)
             (ctx_eventType (qr_context run)) (ctx_branch (qr_context run))
             (ctx_sha (qr_context run)) of
        (pipelineRun, db1) \<Rightarrow>
          (case loadConfig fs (qr_configPath run) of
             Inl e \<Rightarrow> (Inl e, db1)
           | Inr config \<Rightarrow>
               let pipelines = resolvePipelines config (qr_context run)
               in case find (\<lambda>p. pl_name p = qr_pipelineName run) pipelines of
                    None \<Rightarrow>
                      (Inl (Error (''Pipeline '' @ [CHR 0x27] @ qr_pipelineName run @ [CHR 0x27]
                                   @ '' not found'')), db1)
                  | Some pipeline \<Rightarrow>
                      (Inr (pr_id pipelineRun),
                       foldl (\<lambda>d jobDef.
                                createJob d (qr_id run @ ''-'' @ job_name jobDef) (qr_id run)
                                  (job_name jobDef) (job_runner_image jobDef))
                         db1 (pl_jobs pipeline))))"

record Scheduler =
  sch_running :: bool
  sch_maxConcurrent :: nat
  sch_activeJobs :: "string list"

text \<open>
  \<open>canJobRun\<close>: true for the first job of the run whose status is \<open>pending\<close>; the job's
  dependencies are not looked at.
\<close>

definition canJobRun :: "Database \<Rightarrow> JobRecord \<Rightarrow> bool" where
  "canJobRun db job =
     (case getPipelineRun db (jb_pipeline_run_id job) of
        None \<Rightarrow> False
      | Some pipelineRun \<Rightarrow>
          let allJobs = getJobsForPipelineRun db (jb_pipeline_run_id job);
              pendingJobs = filter (\<lambda>j. jb_status j = JPending) allJobs
          in case pendingJobs of
               [] \<Rightarrow> False
             | first # _ \<Rightarrow> jb_id first = jb_id job)"

text \<open>
  \<open>executeJob\<close> up to its first \<open>await\<close>: the job is set to \<open>running\<close>, and to \<open>failure\<close>
  at once when its run or its project (with a config path) is missing.
\<close>

definition executeJobBegin :: "Database \<Rightarrow> JobRecord \<Rightarrow> Database" where
  "executeJobBegin db job =
     (let db1 = updateJobStatus db (jb_id job) JRunning
      in case getPipelineRun db1 (jb_pipeline_run_id job) of
           None \<Rightarrow> updateJobStatus db1 (jb_id job) JFailure
         | Some pipelineRun \<Rightarrow>
             (case getProject db1 (pr_project_id pipelineRun) of
                None \<Rightarrow> updateJobStatus db1 (jb_id job) JFailure
              | Some project \<Rightarrow>
                  (case pj_config_path project of
                     None \<Rightarrow> updateJobStatus db1 (jb_id job) JFailure
                   | Some path \<Rightarrow>
                       if path = [] then updateJobStatus db1 (jb_id job) JFailure else db1)))"

text \<open>One round of the loop of \<open>processQueue\<close> over the pending jobs it fetched.\<close>

definition dispatch :: "Scheduler \<times> Database \<Rightarrow> JobRecord \<Rightarrow> Scheduler \<times> Database" where
  "dispatch state job =
     (case state of
        (sched, db) \<Rightarrow>
          if jb_id job \<in> set (sch_activeJobs sched) then (sched, db)
          else if \<not> canJobRun db job then (sched, db)
          else (sched\<lparr>sch_activeJobs := sch_activeJobs sched @ [jb_id job]\<rparr>,
                executeJobBegin db job))"

definition processQueue :: "Scheduler \<times> Database \<Rightarrow> Scheduler \<times> Database" where
  "processQueue state =
     (case state of
        (sched, db) \<Rightarrow>
          if \<not> sch_running sched then (sched, db)
          else if length (sch_activeJobs sched) \<ge> sch_maxConcurrent sched then (sched, db)
          else
            let availableSlots = sch_maxConcurrent sched - length (sch_activeJobs sched);
                pendingJobs = getPendingJobs db availableSlots
            in foldl dispatch (sched, db) pendingJobs)"

text \<open>A job ends: \<open>executeJob\<close> stores the final status and the job leaves \<open>activeJobs\<close>.\<close>

definition jobEnded :: "Scheduler \<times> Database \<Rightarrow> string \<Rightarrow> JobStatus \<Rightarrow> Scheduler \<times> Database" where
  "jobEnded state jobId status =
     (case state of
        (sched, db) \<Rightarrow>
          (sched\<lparr>sch_activeJobs := filter (\<lambda>i. i \<noteq> jobId) (sch_activeJobs sched)\<rparr>,
           updateJobStatus db jobId status))"

section \<open>Job scheduler: scenarios\<close>

definition exampleContext :: ConfigContext where
  "exampleContext =
     \<lparr>ctx_branch = ''main'', ctx_sha = ''manual'', ctx_eventType = ''api'',
      ctx_isPullRequest = False\<rparr>"

definition exampleRun :: "string \<Rightarrow> QueuedPipelineRun" where
  "exampleRun pipelineName =
     \<lparr>qr_id = ''r1'', qr_projectId = ''p1'', qr_pipelineName = pipelineName,
      qr_configPath = ''/repo/zephyr.config.ts'', qr_context = exampleContext\<rparr>"

definition exampleDb :: Database where
  "exampleDb =
     \<lparr>db_projects = [\<lparr>pj_id = ''p1'', pj_name = ''demo'',
                       pj_config_path = Some ''/repo/zephyr.config.ts''\<rparr>],
      db_pipeline_runs = [], db_jobs = []\<rparr>"

definition fsWith :: "ZephyrConfig \<Rightarrow> FileSystem" where
  "fsWith config path = (if path = ''/repo/zephyr.config.ts'' then Some (Default config) else None)"

definition configOf :: "JobDefinition list \<Rightarrow> ZephyrConfig" where
  "configOf jobs =
     \<lparr>cfg_project = Some \<lparr>proj_name = ''demo'', proj_env = []\<rparr>,
      cfg_pipelines = Some (Static [\<lparr>pl_name = ''ci'', pl_triggers = [''push''],
                                     pl_jobs = jobs, pl_env = []\<rparr>])\<rparr>"

text \<open>The pipeline \<open>ci\<close> with \<open>build\<close> and \<open>test\<close>, \<open>test\<close> depending on \<open>build\<close>.\<close>

definition dependentJobs :: "JobDefinition list" where
  "dependentJobs =
     [jobOf ''build'' [runStepOf ''Build'' ''make''],
      (jobOf ''test'' [runStepOf ''Test'' ''make test''])\<lparr>job_dependsOn := [''build'']\<rparr>]"

text \<open>The pipeline \<open>ci\<close> with one job that has a matrix of two values.\<close>

definition matrixJobs :: "JobDefinition list" where
  "matrixJobs =
     [(jobOf ''test'' [runStepOf ''Test'' ''make test''])
        \<lparr>job_matrix := Some \<lparr>mx_values = [(''node'', [Num ''18'', Num ''20''])], mx_exclude = [],
                              mx_include = [], mx_maxParallel = None\<rparr>\<rparr>]"

definition exampleScheduler :: Scheduler where
  "exampleScheduler = \<lparr>sch_running = True, sch_maxConcurrent = 4, sch_activeJobs = []\<rparr>"

section \<open>Matrix expansion: properties\<close>

lemma foldl_append_expand:
  "foldl (\<lambda>expanded job. expanded @ expandMatrix job) acc jobs
     = acc @ concat (map expandMatrix jobs)"
  by (induction jobs arbitrary: acc) simp_all

lemma expandPipelineJobs_concat:
  "expandPipelineJobs jobs = concat (map expandMatrix jobs)"
  by (simp add: expandPipelineJobs_def foldl_append_expand)

text \<open>
  C10. A job whose \<open>matrix\<close> is present but whose \<open>matrix.values\<close> has no dimension
  expands to no instance at all: it contributes nothing to the expanded pipeline, whereas
  the same job without the \<open>matrix\<close> field expands to exactly one instance.
\<close>

theorem expandMatrix_zero_dimensions:
  assumes "job_matrix job = Some m" and "mx_values m = []"
  shows "expandMatrix job = []
       \<and> expandPipelineJobs (before @ job # after) = expandPipelineJobs (before @ after)
       \<and> length (expandMatrix (job\<lparr>job_matrix := None\<rparr>)) = 1"
proof -
  have "generateCombinations m = []"
    using assms(2) by (simp add: generateCombinations_def Object_keys_def)
  then have none: "expandMatrix job = []"
    using assms(1) by (simp add: expandMatrix_def)
  then show ?thesis
    by (simp add: expandPipelineJobs_concat expandMatrix_def)
qed

theorem expandMatrix_zero_dimensions_witness:
  "expandMatrix \<lparr>job_name = ''test'', job_runner_image = ''ubuntu-22.04'', job_env = [],
       job_steps = [], job_dependsOn = [],
       job_matrix = Some \<lparr>mx_values = [], mx_exclude = [],
         mx_include = [[(''os'', Str ''alpine'')]], mx_maxParallel = None\<rparr>\<rparr> = []"
  using expandMatrix_zero_dimensions
    [of "\<lparr>job_name = ''test'', job_runner_image = ''ubuntu-22.04'', job_env = [],
          job_steps = [], job_dependsOn = [],
          job_matrix = Some \<lparr>mx_values = [], mx_exclude = [],
            mx_include = [[(''os'', Str ''alpine'')]], mx_maxParallel = None\<rparr>\<rparr>"
        "\<lparr>mx_values = [], mx_exclude = [],
            mx_include = [[(''os'', Str ''alpine'')]], mx_maxParallel = None\<rparr>"]
  by simp

subsection \<open>The expansion refines the specified one\<close>



























section \<open>Placeholders: properties\<close>

lemma takeWhile_word_key:
  "list_all is_word key \<Longrightarrow> takeWhile is_word (key @ '' }}'') = key"
  by (simp add: list_all_iff takeWhile_append2 is_word_def)

lemma dropWhile_word_key:
  "list_all is_word key \<Longrightarrow> dropWhile is_word (key @ '' }}'') = '' }}''"
  by (simp add: list_all_iff dropWhile_append2 is_word_def)

lemma match_placeholder_matrix:
  assumes "key \<noteq> []" and "list_all is_word key"
  shows "match_placeholder (matrix key) = Some (key, [])"
  using assms(1)
  by (simp add: match_placeholder_def matrix_def strip_prefix_def is_space_def Let_def
      takeWhile_word_key[OF assms(2)] dropWhile_word_key[OF assms(2)])

text \<open>
  For a key of word characters the helper's placeholder matches, and interpolation
  replaces it by the value's string (by the empty string when the key has no value).
\<close>

lemma interpolateMatrix_matrix_word:
  assumes "key \<noteq> []" and "list_all is_word key"
  shows "interpolateMatrix (matrix key) m
           = (if getProp m key \<noteq> Undefined then toString (getProp m key) else [])"
proof -
  obtain c cs where cs: "matrix key = c # cs"
    by (simp add: matrix_def)
  have "match_placeholder (c # cs) = Some (key, [])"
    using match_placeholder_matrix[OF assms] cs by simp
  then have "interpolateMatrix (c # cs) m
           = (if getProp m key \<noteq> Undefined then toString (getProp m key) else [])"
    by (simp add: Let_def)
  then show ?thesis by (simp add: cs)
qed

text \<open>
  C9. The helper \<open>matrix(k)\<close> is documented and tested with the key \<open>node-version\<close>. Its
  placeholder does not match the interpolation pattern, whose key is \<open>\w+\<close>, and
  \<open>interpolateMatrix\<close> returns it unchanged although the matrix binds the key.
\<close>

theorem matrix_placeholder_hyphen_not_replaced:
  "match_placeholder (matrix ''node-version'') = None
   \<and> interpolateMatrix (matrix ''node-version'') [(''node-version'', Num ''18'')]
       = ''${{ matrix.node-version }}''
   \<and> toString (getProp [(''node-version'', Num ''18'')] ''node-version'') = ''18''"
  by code_simp

section \<open>Step executor: properties\<close>

lemma stepFails_head:
  "someStepFails world bunEnv cwd env (step # steps) st0 \<longleftrightarrow>
     stepFails world bunEnv cwd env step st0 \<or>
     (\<exists>st1. loopBody world bunEnv cwd env step st0 = Some st1 \<and>
            someStepFails world bunEnv cwd env steps st1)"
proof
  assume "someStepFails world bunEnv cwd env (step # steps) st0"
  then obtain pre s post st where d: "step # steps = pre @ s # post"
    and r: "runSteps world bunEnv cwd env pre st0 = Some st"
    and f: "stepFails world bunEnv cwd env s st"
    unfolding someStepFails_def by blast
  show "stepFails world bunEnv cwd env step st0 \<or>
     (\<exists>st1. loopBody world bunEnv cwd env step st0 = Some st1 \<and>
            someStepFails world bunEnv cwd env steps st1)"
  proof (cases pre)
    case Nil
    then show ?thesis using d r f by simp
  next
    case (Cons a pre')
    then have a: "a = step" and steps: "steps = pre' @ s # post" using d by simp_all
    from r Cons a obtain st1 where b: "loopBody world bunEnv cwd env step st0 = Some st1"
      and r': "runSteps world bunEnv cwd env pre' st1 = Some st"
      by (auto split: option.splits)
    have "someStepFails world bunEnv cwd env steps st1"
      unfolding someStepFails_def using steps r' f by blast
    then show ?thesis using b by blast
  qed
next
  assume "stepFails world bunEnv cwd env step st0 \<or>
     (\<exists>st1. loopBody world bunEnv cwd env step st0 = Some st1 \<and>
            someStepFails world bunEnv cwd env steps st1)"
  then show "someStepFails world bunEnv cwd env (step # steps) st0"
  proof
    assume f: "stepFails world bunEnv cwd env step st0"
    have "step # steps = [] @ step # steps" by simp
    moreover have "runSteps world bunEnv cwd env [] st0 = Some st0" by simp
    ultimately show ?thesis unfolding someStepFails_def using f by blast
  next
    assume "\<exists>st1. loopBody world bunEnv cwd env step st0 = Some st1 \<and>
            someStepFails world bunEnv cwd env steps st1"
    then obtain st1 pre s post st where b: "loopBody world bunEnv cwd env step st0 = Some st1"
      and d: "steps = pre @ s # post"
      and r: "runSteps world bunEnv cwd env pre st1 = Some st"
      and f: "stepFails world bunEnv cwd env s st"
      unfolding someStepFails_def by blast
    have "step # steps = (step # pre) @ s # post" using d by simp
    moreover have "runSteps world bunEnv cwd env (step # pre) st0 = Some st" using b r by simp
    ultimately show ?thesis unfolding someStepFails_def using f by blast
  qed
qed

lemma loopBody_jobFailed:
  "loopBody world bunEnv cwd env step st = Some st' \<Longrightarrow>
     ls_jobFailed st' \<longleftrightarrow> ls_jobFailed st \<or> stepFails world bunEnv cwd env step st"
  by (auto simp: loopBody_def stepFails_def failureSkips_def split: if_splits option.splits)

lemma runSteps_jobFailed:
  "runSteps world bunEnv cwd env steps st0 = Some st' \<Longrightarrow>
     ls_jobFailed st' \<longleftrightarrow> ls_jobFailed st0 \<or> someStepFails world bunEnv cwd env steps st0"
proof (induction steps arbitrary: st0)
  case Nil
  then show ?case by (simp add: someStepFails_def)
next
  case (Cons step steps)
  from Cons.prems obtain st1 where b: "loopBody world bunEnv cwd env step st0 = Some st1"
    and r: "runSteps world bunEnv cwd env steps st1 = Some st'"
    by (auto split: option.splits)
  have "ls_jobFailed st' \<longleftrightarrow> ls_jobFailed st1 \<or> someStepFails world bunEnv cwd env steps st1"
    using Cons.IH[OF r] .
  also have "\<dots> \<longleftrightarrow> ls_jobFailed st0 \<or> stepFails world bunEnv cwd env step st0
                 \<or> someStepFails world bunEnv cwd env steps st1"
    using loopBody_jobFailed[OF b] by blast
  also have "\<dots> \<longleftrightarrow> ls_jobFailed st0 \<or> someStepFails world bunEnv cwd env (step # steps) st0"
    unfolding stepFails_head[of world bunEnv cwd env step steps st0] using b by auto
  finally show ?case .
qed

text \<open>When every process ends, every call returns.\<close>

lemma runCommand_returns:
  assumes "alwaysEnds world"
  shows "\<exists>r. cr_result (runCommand world bunEnv command options) = Some r"
proof -
  let ?proc = "world (spawnArgs bunEnv command options)"
  have e: "p_exitsAfter ?proc \<noteq> None" and t: "\<And>ms. p_afterTerm ?proc ms \<noteq> None"
    using assms by (simp_all add: alwaysEnds_def)
  obtain d where d: "p_exitsAfter ?proc = Some d" using e by auto
  show ?thesis
  proof (cases "co_timeout options")
    case None
    then show ?thesis by (simp add: runCommand_def Let_def d)
  next
    case (Some seconds)
    obtain rest where rest: "p_afterTerm ?proc (seconds * 1000) = Some rest"
      using t[of "seconds * 1000"] by auto
    show ?thesis using Some d rest by (simp add: runCommand_def Let_def)
  qed
qed

lemma runStep_returns:
  assumes "alwaysEnds world"
  shows "\<exists>r. runStep world bunEnv step cwd env stepResults = Some r"
proof (cases "step_type step")
  case (RunStep run shellOpt)
  obtain r where "cr_result (runCommand world bunEnv run (commandOptions step cwd env shellOpt)) = Some r"
    using runCommand_returns[OF assms] by blast
  then show ?thesis using RunStep by (cases r) (simp add: runStep_def Let_def)
next
  case (SetupStep runtime version)
  then show ?thesis by (simp add: runStep_def)
qed

lemma loopBody_returns:
  assumes "alwaysEnds world"
  shows "\<exists>st'. loopBody world bunEnv cwd env step st = Some st'"
proof -
  obtain r where "runStep world bunEnv step cwd env (ls_stepResults st) = Some r"
    using runStep_returns[OF assms] by blast
  then show ?thesis by (simp add: loopBody_def)
qed

lemma runSteps_returns:
  assumes "alwaysEnds world"
  shows "\<exists>st'. runSteps world bunEnv cwd env steps st = Some st'"
proof (induction steps arbitrary: st)
  case Nil
  show ?case by simp
next
  case (Cons step steps)
  obtain st1 where "loopBody world bunEnv cwd env step st = Some st1"
    using loopBody_returns[OF assms] by blast
  then show ?case using Cons.IH[of st1] by simp
qed

lemma runJob_returns:
  assumes "alwaysEnds world"
  shows "\<exists>res. runJob world bunEnv job cwd optionsEnv = Some res"
proof -
  obtain st where "runSteps world bunEnv cwd (jobEnvironment optionsEnv job) (job_steps job)
                     initialLoopState = Some st"
    using runSteps_returns[OF assms] by blast
  then show ?thesis by (simp add: runJob_def Let_def)
qed

text \<open>
  C5. For an executed run step the outcome is \<open>success\<close> exactly when the exit code is 0
  and \<open>failure\<close> otherwise; the status is the outcome, except that a failure of a step
  marked \<open>continueOnError\<close> has status \<open>success\<close>. The status of the job is \<open>failure\<close>
  exactly when some step, executed at its turn, has outcome \<open>failure\<close> and is not marked
  \<open>continueOnError\<close>, and \<open>success\<close> otherwise: so for every result \<open>runJob\<close> returns,
  and it returns one whenever every process ends.
\<close>

theorem result_mapping:
  "(step_type step = RunStep run shellOpt \<and>
    cr_result (runCommand world bunEnv run (commandOptions step cwd env shellOpt))
      = Some (exitCode, out)
      \<longrightarrow> (\<exists>r. runStep world bunEnv step cwd env stepResults = Some r
             \<and> (sr_outcome r = Success \<longleftrightarrow> exitCode = 0)
             \<and> (sr_outcome r = Failure \<longleftrightarrow> exitCode \<noteq> 0)
             \<and> sr_status r = (if sr_outcome r = Failure \<and> step_continueOnError step
                               then Success else sr_outcome r)))
   \<and> (runJob world bunEnv job cwd optionsEnv = Some res
      \<longrightarrow> (jr_status res = RunFailure \<longleftrightarrow>
             someStepFails world bunEnv cwd (jobEnvironment optionsEnv job) (job_steps job)
               initialLoopState)
        \<and> (jr_status res = RunSuccess \<longleftrightarrow>
             \<not> someStepFails world bunEnv cwd (jobEnvironment optionsEnv job) (job_steps job)
               initialLoopState))
   \<and> (alwaysEnds world
      \<longrightarrow> (\<exists>r. runStep world bunEnv step cwd env stepResults = Some r)
        \<and> (\<exists>res'. runJob world bunEnv job cwd optionsEnv = Some res'
             \<and> jr_status res' =
                 (if someStepFails world bunEnv cwd (jobEnvironment optionsEnv job) (job_steps job)
                       initialLoopState
                  then RunFailure else RunSuccess)))"
proof -
  have job: "(jr_status res0 = RunFailure \<longleftrightarrow>
             someStepFails world bunEnv cwd (jobEnvironment optionsEnv job) (job_steps job)
               initialLoopState)
        \<and> (jr_status res0 = RunSuccess \<longleftrightarrow>
             \<not> someStepFails world bunEnv cwd (jobEnvironment optionsEnv job) (job_steps job)
               initialLoopState)"
    if r: "runJob world bunEnv job cwd optionsEnv = Some res0" for res0
  proof -
    from r obtain st where st: "runSteps world bunEnv cwd (jobEnvironment optionsEnv job)
                              (job_steps job) initialLoopState = Some st"
      and res: "jr_status res0 = (if ls_jobFailed st then RunFailure else RunSuccess)"
      by (auto simp: runJob_def Let_def split: option.splits)
    have f: "ls_jobFailed st \<longleftrightarrow>
             someStepFails world bunEnv cwd (jobEnvironment optionsEnv job) (job_steps job)
               initialLoopState"
      using runSteps_jobFailed[OF st] by (simp add: initialLoopState_def)
    show ?thesis using res f by simp
  qed
  have a: "step_type step = RunStep run shellOpt \<and>
    cr_result (runCommand world bunEnv run (commandOptions step cwd env shellOpt))
      = Some (exitCode, out)
      \<longrightarrow> (\<exists>r. runStep world bunEnv step cwd env stepResults = Some r
             \<and> (sr_outcome r = Success \<longleftrightarrow> exitCode = 0)
             \<and> (sr_outcome r = Failure \<longleftrightarrow> exitCode \<noteq> 0)
             \<and> sr_status r = (if sr_outcome r = Failure \<and> step_continueOnError step
                               then Success else sr_outcome r))"
    by (simp add: runStep_def Let_def)
  have b: "runJob world bunEnv job cwd optionsEnv = Some res
      \<longrightarrow> (jr_status res = RunFailure \<longleftrightarrow>
             someStepFails world bunEnv cwd (jobEnvironment optionsEnv job) (job_steps job)
               initialLoopState)
        \<and> (jr_status res = RunSuccess \<longleftrightarrow>
             \<not> someStepFails world bunEnv cwd (jobEnvironment optionsEnv job) (job_steps job)
               initialLoopState)"
    using job by blast
  have c: "alwaysEnds world
      \<longrightarrow> (\<exists>r. runStep world bunEnv step cwd env stepResults = Some r)
        \<and> (\<exists>res'. runJob world bunEnv job cwd optionsEnv = Some res'
             \<and> jr_status res' =
                 (if someStepFails world bunEnv cwd (jobEnvironment optionsEnv job) (job_steps job)
                       initialLoopState
                  then RunFailure else RunSuccess))"
  proof
    assume e: "alwaysEnds world"
    obtain res' where r': "runJob world bunEnv job cwd optionsEnv = Some res'"
      using runJob_returns[OF e] by blast
    have "jr_status res' =
                 (if someStepFails world bunEnv cwd (jobEnvironment optionsEnv job) (job_steps job)
                       initialLoopState
                  then RunFailure else RunSuccess)"
      using job[OF r'] by (cases "jr_status res'") auto
    then show "(\<exists>r. runStep world bunEnv step cwd env stepResults = Some r)
        \<and> (\<exists>res'. runJob world bunEnv job cwd optionsEnv = Some res'
             \<and> jr_status res' =
                 (if someStepFails world bunEnv cwd (jobEnvironment optionsEnv job) (job_steps job)
                       initialLoopState
                  then RunFailure else RunSuccess))"
      using runStep_returns[OF e] r' by blast
  qed
  show ?thesis using a b c by blast
qed

lemma failingJob_run:
  "runJob shellWorld [] failingJob ''/work'' []
     = Some \<lparr>jr_job = ''build'', jr_status = RunFailure, jr_steps = [], jr_outputs = [],
             jr_stepTimings = [(''lint'', Success), (''compile'', Failure), (''package'', Skipped)]\<rparr>"
  by code_simp

lemma shellWorld_alwaysEnds: "alwaysEnds shellWorld"
  by (simp add: alwaysEnds_def shellWorld_def)

theorem result_mapping_witness:
  "(\<exists>r. runStep shellWorld [] ((runStepOf ''lint'' ''false'')\<lparr>step_continueOnError := True\<rparr>)
            ''/work'' [] \<lparr>so_proto = None, so_own = []\<rparr> = Some r
        \<and> sr_outcome r = Failure \<and> sr_status r = Success)
   \<and> someStepFails shellWorld [] ''/work'' (jobEnvironment [] failingJob) (job_steps failingJob)
       initialLoopState
   \<and> (\<exists>res. runJob shellWorld [] failingJob ''/work'' [] = Some res \<and> jr_status res = RunFailure)"
proof -
  let ?lint = "(runStepOf ''lint'' ''false'')\<lparr>step_continueOnError := True\<rparr>"
  let ?none = "\<lparr>so_proto = None, so_own = []\<rparr> :: StepResults"
  let ?res = "\<lparr>jr_job = ''build'', jr_status = RunFailure, jr_steps = [], jr_outputs = [],
             jr_stepTimings = [(''lint'', Success), (''compile'', Failure), (''package'', Skipped)]\<rparr>"
  have ty: "step_type ?lint = RunStep ''false'' None"
    by (simp add: runStepOf_def)
  have coe: "step_continueOnError ?lint"
    by simp
  have rc: "cr_result (runCommand shellWorld [] ''false'' (commandOptions ?lint ''/work'' [] None))
              = Some (1, [])"
    by code_simp
  note th = result_mapping[where step = ?lint and run = "''false''" and shellOpt = None
      and world = shellWorld and bunEnv = "[]" and cwd = "''/work''" and env = "[]"
      and exitCode = 1 and out = "[]" and stepResults = ?none and job = failingJob
      and optionsEnv = "[]" and res = ?res]
  have "\<exists>r. runStep shellWorld [] ?lint ''/work'' [] ?none = Some r
             \<and> (sr_outcome r = Success \<longleftrightarrow> (1::int) = 0)
             \<and> (sr_outcome r = Failure \<longleftrightarrow> (1::int) \<noteq> 0)
             \<and> sr_status r = (if sr_outcome r = Failure \<and> step_continueOnError ?lint
                               then Success else sr_outcome r)"
    using th[THEN conjunct1] ty rc by blast
  then have a: "\<exists>r. runStep shellWorld [] ?lint ''/work'' [] ?none = Some r
        \<and> sr_outcome r = Failure \<and> sr_status r = Success"
    using coe by auto
  have "jr_status ?res = RunFailure" by simp
  then have b: "someStepFails shellWorld [] ''/work'' (jobEnvironment [] failingJob)
                  (job_steps failingJob) initialLoopState"
    using th[THEN conjunct2, THEN conjunct1] failingJob_run by blast
  have c: "\<exists>res. runJob shellWorld [] failingJob ''/work'' [] = Some res \<and> jr_status res = RunFailure"
    using th[THEN conjunct2, THEN conjunct2] shellWorld_alwaysEnds b by auto
  show ?thesis using a b c by blast
qed




lemma obj_set_empty: "obj_set k v [] = [(k, v)]"
  by (simp add: obj_set_def Object_keys_def split: option.splits)

lemma obj_put_empty: "k \<noteq> ''__proto__'' \<Longrightarrow> obj_put k v [] = [(k, v)]"
  by (simp add: obj_put_def obj_set_empty)

text \<open>
  An output that is one line \<open>::set-output name=<name>::<value>\<close> is parsed into the one
  entry \<open>name \<mapsto> value\<close>, unless the name is \<open>__proto__\<close>.
\<close>

lemma parseOutputs_single_line:
  assumes "name \<noteq> []" and "CHR '':'' \<notin> set name" and "name \<noteq> ''__proto__''"
    and "val \<noteq> []" and "\<forall>c \<in> set val. \<not> is_line_terminator c"
  shows "parseOutputs (''::set-output name='' @ name @ ''::'' @ val @ [CHR 0x0A]) = [(name, val)]"
proof -
  let ?text = "''::set-output name='' @ name @ ''::'' @ val @ [CHR 0x0A]"
  have nc: "\<forall>c \<in> set name. c \<noteq> CHR '':''"
    using assms(2) by auto
  have n1: "takeWhile (\<lambda>c. c \<noteq> CHR '':'') (name @ ''::'' @ val @ [CHR 0x0A]) = name"
    using nc by (simp add: takeWhile_append2)
  have n2: "dropWhile (\<lambda>c. c \<noteq> CHR '':'') (name @ ''::'' @ val @ [CHR 0x0A])
              = ''::'' @ val @ [CHR 0x0A]"
    using nc by (simp add: dropWhile_append2)
  have v1: "takeWhile (\<lambda>c. \<not> is_line_terminator c) (val @ [CHR 0x0A]) = val"
    using assms(5) by (simp add: takeWhile_append2 is_line_terminator_def)
  have v2: "dropWhile (\<lambda>c. \<not> is_line_terminator c) (val @ [CHR 0x0A]) = [CHR 0x0A]"
    using assms(5) by (simp add: dropWhile_append2 is_line_terminator_def)
  have m: "match_set_output ?text = Some (name, val, [CHR 0x0A])"
    using assms(1,4) n1 n2 v1 v2
    by (simp add: match_set_output_def strip_prefix_def Let_def)
  have "match_set_output [CHR 0x0A] = None"
    by (simp add: match_set_output_def strip_prefix_def)
  then have rest: "scan_set_output [CHR 0x0A] = []"
    by simp
  obtain c cs where cs: "?text = c # cs"
    by simp
  have "scan_set_output (c # cs) = [(name, val)]"
    using m rest unfolding cs by simp
  then show ?thesis
    unfolding parseOutputs_def cs[symmetric] by (simp add: obj_put_empty[OF assms(3)])
qed

text \<open>
  C4. The step \<open>build\<close> emits \<open>::set-output name=version::1.2.3\<close>, which becomes the entry
  \<open>version\<close> of its outputs. The next step has \<open>VER\<close> set to the placeholder that
  \<open>output('build', 'version')\<close> returns and echoes \<open>$VER\<close>: the process is given the
  placeholder itself, not \<open>1.2.3\<close>. \<open>runStep\<close> merges the environments and resolves
  nothing.
\<close>

theorem step_output_placeholder_not_resolved:
  "runJob echoWorld [] outputJob ''/work'' []
     = Some \<lparr>jr_job = ''release'', jr_status = RunSuccess,
             jr_steps =
               [(''build'', \<lparr>sr_status = Success, sr_outcome = Success,
                              sr_outputs = [(''version'', ''1.2.3'')]\<rparr>),
                (''use'', \<lparr>sr_status = Success, sr_outcome = Success,
                            sr_outputs = [(''seen'', ''${{ steps.build.outputs.version }}'')]\<rparr>)],
             jr_outputs = [],
             jr_stepTimings = [(''Build'', Success), (''Use'', Success)]\<rparr>"
  by code_simp

section \<open>Warm VM pool: properties\<close>








section \<open>Job scheduler: properties\<close>

lemmas scheduler_defs =
  queuePipelineRun_def createPipelineRun_def createJob_def loadConfig_def validateConfig_def
  validatePipeline_def checkDependsOn_def resolvePipelines_def fsWith_def configOf_def
  exampleRun_def exampleContext_def exampleDb_def dependentJobs_def matrixJobs_def jobOf_def
  runStepOf_def exampleScheduler_def processQueue_def dispatch_def canJobRun_def
  executeJobBegin_def getPipelineRun_def getProject_def getJobsForPipelineRun_def
  getPendingJobs_def updateJobStatus_def jobEnded_def Let_def

lemma foldl_createJob:
  "foldl (\<lambda>d jobDef. createJob d (f jobDef) runId (g jobDef) (h jobDef)) db jobs
     = db\<lparr>db_jobs := db_jobs db @
            map (\<lambda>jobDef. \<lparr>jb_id = f jobDef, jb_pipeline_run_id = runId, jb_name = g jobDef,
                            jb_runner_image = h jobDef, jb_status = JPending\<rparr>) jobs\<rparr>"
  by (induction jobs arbitrary: db) (simp_all add: createJob_def)

text \<open>
  C2, as amended. When the configuration loads and has the named pipeline,
  \<open>queuePipelineRun\<close> returns the run id, adds the run row with status \<open>pending\<close>, and
  adds one job row per job definition of the pipeline, in order, with the id
  \<open><run id>-<job name>\<close>, the run id, the name, the runner image and status \<open>pending\<close>;
  the ids are distinct when the job names are.
\<close>

theorem queuePipelineRun_rows:
  assumes "loadConfig fs (qr_configPath run) = Inr config"
    and "find (\<lambda>p. pl_name p = qr_pipelineName run) (resolvePipelines config (qr_context run))
           = Some pipeline"
  shows "fst (queuePipelineRun fs db run) = Inr (qr_id run)
       \<and> db_pipeline_runs (snd (queuePipelineRun fs db run))
           = db_pipeline_runs db @
             [\<lparr>pr_id = qr_id run, pr_project_id = qr_projectId run,
               pr_pipeline_name = qr_pipelineName run,
               pr_trigger_type = ctx_eventType (qr_context run),
               pr_branch = ctx_branch (qr_context run),
               pr_commit_sha = ctx_sha (qr_context run), pr_status = PPending\<rparr>]
       \<and> db_jobs (snd (queuePipelineRun fs db run))
           = db_jobs db @
             map (\<lambda>jobDef. \<lparr>jb_id = qr_id run @ ''-'' @ job_name jobDef,
                             jb_pipeline_run_id = qr_id run, jb_name = job_name jobDef,
                             jb_runner_image = job_runner_image jobDef,
                             jb_status = JPending\<rparr>) (pl_jobs pipeline)
       \<and> (distinct (map job_name (pl_jobs pipeline)) \<longrightarrow>
            distinct (map (\<lambda>jobDef. qr_id run @ ''-'' @ job_name jobDef) (pl_jobs pipeline)))"
proof -
  have d: "distinct (map job_name (pl_jobs pipeline)) \<longrightarrow>
            distinct (map (\<lambda>jobDef. qr_id run @ ''-'' @ job_name jobDef) (pl_jobs pipeline))"
  proof
    assume "distinct (map job_name (pl_jobs pipeline))"
    then have "distinct (map (\<lambda>n. qr_id run @ ''-'' @ n) (map job_name (pl_jobs pipeline)))"
      by (simp add: distinct_map inj_on_def)
    then show "distinct (map (\<lambda>jobDef. qr_id run @ ''-'' @ job_name jobDef) (pl_jobs pipeline))"
      by (simp add: comp_def)
  qed
  show ?thesis
    using assms d
    by (simp add: queuePipelineRun_def createPipelineRun_def Let_def foldl_createJob)
qed

theorem queuePipelineRun_rows_witness:
  "fst (queuePipelineRun (fsWith (configOf dependentJobs)) exampleDb (exampleRun ''ci'')) = Inr ''r1''
   \<and> map jb_id (db_jobs (snd (queuePipelineRun (fsWith (configOf dependentJobs)) exampleDb
                                (exampleRun ''ci''))))
       = [''r1-build'', ''r1-test'']
   \<and> distinct [''r1-build'', ''r1-test'']"
proof -
  let ?p = "\<lparr>pl_name = ''ci'', pl_triggers = [''push''], pl_jobs = dependentJobs, pl_env = []\<rparr>"
  have l: "loadConfig (fsWith (configOf dependentJobs)) (qr_configPath (exampleRun ''ci''))
             = Inr (configOf dependentJobs)"
    by (simp add: scheduler_defs)
  have f: "find (\<lambda>p. pl_name p = qr_pipelineName (exampleRun ''ci''))
             (resolvePipelines (configOf dependentJobs) (qr_context (exampleRun ''ci''))) = Some ?p"
    by (simp add: scheduler_defs)
  have n: "distinct (map job_name (pl_jobs ?p))"
    by (simp add: dependentJobs_def jobOf_def)
  note th = queuePipelineRun_rows[OF l f, of exampleDb]
  have "db_jobs exampleDb = []" by (simp add: exampleDb_def)
  then show ?thesis
    using th n by (simp add: exampleRun_def dependentJobs_def jobOf_def)
qed

text \<open>
  As stated, with one row per expanded job, the claim fails: a job with a matrix of two
  values expands to two instances and gets the single row \<open>r1-test\<close>.
\<close>

theorem queuePipelineRun_matrix_counterexample:
  "fst (queuePipelineRun (fsWith (configOf matrixJobs)) exampleDb (exampleRun ''ci'')) = Inr ''r1''
   \<and> map ej_instanceId (expandPipelineJobs matrixJobs) = [''test-node=18'', ''test-node=20'']
   \<and> map jb_id (db_jobs (snd (queuePipelineRun (fsWith (configOf matrixJobs)) exampleDb
                                (exampleRun ''ci''))))
       = [''r1-test'']"
proof -
  have 1: "fst (queuePipelineRun (fsWith (configOf matrixJobs)) exampleDb (exampleRun ''ci'')) = Inr ''r1''"
    by (simp add: scheduler_defs)
  have 2: "map ej_instanceId (expandPipelineJobs matrixJobs) = [''test-node=18'', ''test-node=20'']"
    by code_simp
  have 3: "map jb_id (db_jobs (snd (queuePipelineRun (fsWith (configOf matrixJobs)) exampleDb
                                (exampleRun ''ci''))))
       = [''r1-test'']"
    by (simp add: scheduler_defs)
  show ?thesis using 1 2 3 by blast
qed

text \<open>
  C8, as amended. When \<open>queuePipelineRun\<close> fails, the configuration did not load or has
  no pipeline of the given name; the error is returned, no job row is added, and the run
  row, which is created before the configuration is loaded, is in the store with status
  \<open>pending\<close>.
\<close>

theorem queuePipelineRun_failure_keeps_run:
  assumes "fst (queuePipelineRun fs db run) = Inl e"
  shows "db_jobs (snd (queuePipelineRun fs db run)) = db_jobs db
       \<and> db_projects (snd (queuePipelineRun fs db run)) = db_projects db
       \<and> db_pipeline_runs (snd (queuePipelineRun fs db run))
           = db_pipeline_runs db @
             [\<lparr>pr_id = qr_id run, pr_project_id = qr_projectId run,
               pr_pipeline_name = qr_pipelineName run,
               pr_trigger_type = ctx_eventType (qr_context run),
               pr_branch = ctx_branch (qr_context run),
               pr_commit_sha = ctx_sha (qr_context run), pr_status = PPending\<rparr>]
       \<and> (loadConfig fs (qr_configPath run) = Inl e
          \<or> (\<exists>config. loadConfig fs (qr_configPath run) = Inr config
                \<and> find (\<lambda>p. pl_name p = qr_pipelineName run)
                     (resolvePipelines config (qr_context run)) = None))"
  using assms
  by (auto simp: queuePipelineRun_def createPipelineRun_def Let_def
      split: sum.splits option.splits)

theorem queuePipelineRun_failure_keeps_run_witness:
  "db_jobs (snd (queuePipelineRun (fsWith (configOf dependentJobs)) exampleDb (exampleRun ''deploy''))) = []
   \<and> map pr_id (db_pipeline_runs (snd (queuePipelineRun (fsWith (configOf dependentJobs)) exampleDb
                                          (exampleRun ''deploy'')))) = [''r1'']"
proof -
  have "fst (queuePipelineRun (fsWith (configOf dependentJobs)) exampleDb (exampleRun ''deploy''))
          = Inl (Error (''Pipeline '' @ [CHR 0x27] @ ''deploy'' @ [CHR 0x27] @ '' not found''))"
    by (simp add: scheduler_defs)
  from queuePipelineRun_failure_keeps_run[OF this] show ?thesis
    by (simp add: exampleDb_def exampleRun_def)
qed

text \<open>
  As stated, with no pipeline-run row after the failure, the claim fails both for an
  invalid configuration (a pipeline without jobs) and for an absent pipeline: the row
  \<open>r1\<close> is in the store.
\<close>

theorem queuePipelineRun_failure_counterexample:
  "fst (queuePipelineRun (fsWith (configOf [])) exampleDb (exampleRun ''ci''))
     = Inl (Error (''Pipeline '' @ [CHR 0x27] @ ''ci'' @ [CHR 0x27] @ '' must have at least one job''))
   \<and> map (\<lambda>r. (pr_id r, pr_status r))
        (db_pipeline_runs (snd (queuePipelineRun (fsWith (configOf [])) exampleDb (exampleRun ''ci''))))
       = [(''r1'', PPending)]
   \<and> fst (queuePipelineRun (fsWith (configOf dependentJobs)) exampleDb (exampleRun ''deploy''))
     = Inl (Error (''Pipeline '' @ [CHR 0x27] @ ''deploy'' @ [CHR 0x27] @ '' not found''))
   \<and> map (\<lambda>r. (pr_id r, pr_status r))
        (db_pipeline_runs (snd (queuePipelineRun (fsWith (configOf dependentJobs)) exampleDb
                                  (exampleRun ''deploy''))))
       = [(''r1'', PPending)]"
  by (simp add: scheduler_defs)

text \<open>
  C1. \<open>canJobRun\<close> is documented as checking that a job's dependencies are satisfied, but
  it answers whether the job is the first pending job of its run. With \<open>test\<close> depending on
  \<open>build\<close>, one round of \<open>processQueue\<close> sets both to \<open>running\<close>: \<open>test\<close> runs while
  \<open>build\<close> is running. With one slot, \<open>test\<close> is set to \<open>running\<close> in the round after
  \<open>build\<close> ended in \<open>failure\<close>.
\<close>

theorem dependent_job_dispatched_early:
  "map job_dependsOn dependentJobs = [[], [''build'']]
   \<and> map (\<lambda>j. (jb_name j, jb_status j))
        (db_jobs (snd (processQueue
           (exampleScheduler,
            snd (queuePipelineRun (fsWith (configOf dependentJobs)) exampleDb (exampleRun ''ci''))))))
       = [(''build'', JRunning), (''test'', JRunning)]
   \<and> map (\<lambda>j. (jb_name j, jb_status j))
        (db_jobs (snd (processQueue
           (jobEnded
              (processQueue
                 (exampleScheduler\<lparr>sch_maxConcurrent := 1\<rparr>,
                  snd (queuePipelineRun (fsWith (configOf dependentJobs)) exampleDb
                         (exampleRun ''ci''))))
              ''r1-build'' JFailure))))
       = [(''build'', JFailure), (''test'', JRunning)]"
  by (simp add: scheduler_defs)

end
